theory Spec2Isabelle
  imports Complex_Main
begin

section \<open>Strings and exceptions\<close>

text \<open>
  The widget backend (\<^verbatim>\<open>customgpt-widget/backend\<close>) is Python. A Python \<^verbatim>\<open>str\<close> is
  modelled as a \<^typ>\<open>string\<close>, one \<^typ>\<open>char\<close> per character, for texts of ASCII
  characters; on these \<^verbatim>\<open>str.lower()\<close> maps the letters A-Z to a-z and leaves every other
  character alone.
\<close>

definition lower_char :: "char \<Rightarrow> char" where
  "lower_char c =
     (case map_of (zip ''ABCDEFGHIJKLMNOPQRSTUVWXYZ'' ''abcdefghijklmnopqrstuvwxyz'') c of
        Some d \<Rightarrow> d
      | None \<Rightarrow> c)"

definition lower :: "string \<Rightarrow> string" where
  "lower s = map lower_char s"

text \<open>\<^verbatim>\<open>s.startswith(pat)\<close> and the substring test \<^verbatim>\<open>pat in s\<close>.\<close>

fun starts_with :: "string \<Rightarrow> string \<Rightarrow> bool" where
  "starts_with s [] = True"
| "starts_with [] (p # ps) = False"
| "starts_with (c # cs) (p # ps) = (c = p \<and> starts_with cs ps)"

fun str_in :: "string \<Rightarrow> string \<Rightarrow> bool" where
  "str_in pat [] = (pat = [])"
| "str_in pat (c # cs) = (starts_with (c # cs) pat \<or> str_in pat cs)"

text \<open>
  An exception is its class, as far as the code tests it with \<^verbatim>\<open>isinstance\<close> or an
  \<^verbatim>\<open>except\<close> clause, and the text \<^verbatim>\<open>str(e)\<close>. A subclass of \<^verbatim>\<open>ConnectionError\<close> or
  \<^verbatim>\<open>TimeoutError\<close> is represented by that class; every other class is
  \<open>OtherException\<close> with its name.
\<close>

datatype exc_class = ConnectionError | TimeoutError | AsyncioTimeoutError
  | OtherException string

record exc =
  exc_class :: exc_class
  exc_str :: string

section \<open>retry\_utils.py\<close>

record RetryConfig =
  max_attempts :: int
  base_delay :: real
  max_delay :: real
  exponential_base :: real
  jitter :: bool

text \<open>The defaults of \<^verbatim>\<open>RetryConfig.__init__\<close> and the predefined configurations.\<close>

definition default_RetryConfig :: RetryConfig where
  "default_RetryConfig =
     \<lparr>max_attempts = 3, base_delay = 1, max_delay = 10, exponential_base = 2, jitter = True\<rparr>"

definition RETRY_CONFIG_STT :: RetryConfig where
  "RETRY_CONFIG_STT =
     \<lparr>max_attempts = 3, base_delay = 1, max_delay = 5, exponential_base = 2, jitter = True\<rparr>"

definition RETRY_CONFIG_AI :: RetryConfig where
  "RETRY_CONFIG_AI =
     \<lparr>max_attempts = 3, base_delay = 2, max_delay = 10, exponential_base = 2, jitter = True\<rparr>"

definition RETRY_CONFIG_TTS :: RetryConfig where
  "RETRY_CONFIG_TTS =
     \<lparr>max_attempts = 3, base_delay = 1, max_delay = 5, exponential_base = 2, jitter = True\<rparr>"

text \<open>
  \<^verbatim>\<open>RetryConfig.calculate_delay(attempt)\<close>. The argument \<open>rnd\<close> is the value that
  \<^verbatim>\<open>random.random()\<close> returns, read only when jitter is on. Python computes in floats;
  the model computes in the reals, so it says nothing about rounding or overflow.
\<close>

definition calculate_delay :: "RetryConfig \<Rightarrow> real \<Rightarrow> nat \<Rightarrow> real" where
  "calculate_delay config rnd attempt =
     (let delay = base_delay config * exponential_base config ^ attempt;
          delay = min delay (max_delay config)
      in if jitter config then delay + delay * 0.25 * rnd else delay)"

definition retryable_conditions :: "string list" where
  "retryable_conditions =
     [''timeout'', ''connection'', ''network'', ''503'', ''502'', ''504'', ''429'',
      ''rate limit'', ''too many requests'']"

definition non_retryable_conditions :: "string list" where
  "non_retryable_conditions =
     [''401'', ''403'', ''404'', ''invalid api key'', ''authentication'', ''authorization'']"

text \<open>\<^verbatim>\<open>should_retry(exception)\<close>: the \<^verbatim>\<open>isinstance\<close> test, then the two \<^verbatim>\<open>for\<close> statements, then the default.\<close>

definition should_retry :: "exc \<Rightarrow> bool" where
  "should_retry exception =
     (if exc_class exception = ConnectionError \<or> exc_class exception = TimeoutError
         \<or> exc_class exception = AsyncioTimeoutError then True
      else
        let error_msg = lower (exc_str exception) in
        if list_ex (\<lambda>condition. str_in condition error_msg) retryable_conditions then True
        else if list_ex (\<lambda>condition. str_in condition error_msg) non_retryable_conditions
          then False
        else if str_in ''500'' error_msg \<or> str_in ''5xx'' error_msg then True
        else False)"

text \<open>
  \<^verbatim>\<open>retry_async\<close>. The operation \<open>func\<close> acts on a state \<open>'s\<close> of the outside world and
  either raises (\<open>Inl\<close>) or returns (\<open>Inr\<close>). The result carries the trace of what the
  loop did: \<open>Invoked\<close> for each \<^verbatim>\<open>await func(...)\<close>, \<open>Slept d\<close> for each
  \<^verbatim>\<open>await asyncio.sleep(d)\<close>. \<open>rnd a\<close> is the random number drawn at attempt \<open>a\<close>.
\<close>

datatype event = Invoked | Slept real

text \<open>\<^verbatim>\<open>raise last_exception\<close> with \<^verbatim>\<open>last_exception = None\<close> is a \<^verbatim>\<open>TypeError\<close>.\<close>

definition raise_None :: exc where
  "raise_None =
     \<lparr>exc_class = OtherException ''TypeError'',
      exc_str = ''exceptions must derive from BaseException''\<rparr>"

fun retry_loop ::
  "RetryConfig \<Rightarrow> (nat \<Rightarrow> real) \<Rightarrow> ('s \<Rightarrow> (exc + 'a) \<times> 's) \<Rightarrow> nat list \<Rightarrow> exc option \<Rightarrow> 's
     \<Rightarrow> (exc + 'a) \<times> 's \<times> event list" where
  "retry_loop config rnd func [] last_exception s =
     (case last_exception of
        None \<Rightarrow> (Inl raise_None, s, [])
      | Some e \<Rightarrow> (Inl e, s, []))"
| "retry_loop config rnd func (attempt # rest) last_exception s =
     (case func s of
        (Inr result, s') \<Rightarrow> (Inr result, s', [Invoked])
      | (Inl e, s') \<Rightarrow>
          if \<not> should_retry e then (Inl e, s', [Invoked])
          else if int attempt = max_attempts config - 1 then (Inl e, s', [Invoked])
          else
            (case retry_loop config rnd func rest (Some e) s' of
               (r, s'', tr) \<Rightarrow>
                 (r, s'', Invoked # Slept (calculate_delay config (rnd attempt) attempt) # tr)))"

definition retry_async ::
  "('s \<Rightarrow> (exc + 'a) \<times> 's) \<Rightarrow> RetryConfig option \<Rightarrow> (nat \<Rightarrow> real) \<Rightarrow> 's
     \<Rightarrow> (exc + 'a) \<times> 's \<times> event list" where
  "retry_async func config rnd s =
     (let config = (case config of None \<Rightarrow> default_RetryConfig | Some c \<Rightarrow> c)
      in retry_loop config rnd func [0..<nat (max_attempts config)] None s)"

section \<open>fallback.py\<close>

datatype ServiceType = STT | AI | TTS

record 'a FallbackResult =
  success :: bool
  result :: "'a option"
  provider_used :: "string option"
  fallback_level :: int
  error :: "exc option"

text \<open>
  \<^verbatim>\<open>execute_fallback_chain\<close>. \<open>try_fallbacks\<close> is the loop over
  \<^verbatim>\<open>enumerate(fallback_funcs, start=1)\<close>: \<open>None\<close> when the loop runs to its end. The last
  component of the result lists the providers in the order they were called (the names the
  code logs before each call).
\<close>

fun try_fallbacks ::
  "(('s \<Rightarrow> (exc + 'a) \<times> 's) \<times> string) list \<Rightarrow> int \<Rightarrow> 's
     \<Rightarrow> 'a FallbackResult option \<times> 's \<times> string list" where
  "try_fallbacks [] level s = (None, s, [])"
| "try_fallbacks ((fallback_func, fallback_name) # rest) level s =
     (case fallback_func s of
        (Inr r, s') \<Rightarrow>
          (Some \<lparr>success = True, result = Some r, provider_used = Some fallback_name,
                 fallback_level = level, error = None\<rparr>, s', [fallback_name])
      | (Inl fallback_error, s') \<Rightarrow>
          (case try_fallbacks rest (level + 1) s' of
             (res, s'', called) \<Rightarrow> (res, s'', fallback_name # called)))"

definition execute_fallback_chain ::
  "ServiceType \<Rightarrow> ('s \<Rightarrow> (exc + 'a) \<times> 's) \<Rightarrow> string
     \<Rightarrow> (('s \<Rightarrow> (exc + 'a) \<times> 's) \<times> string) list option \<Rightarrow> 's
     \<Rightarrow> 'a FallbackResult \<times> 's \<times> string list" where
  "execute_fallback_chain service_type primary_func primary_name fallback_funcs s =
     (case primary_func s of
        (Inr r, s') \<Rightarrow>
          (\<lparr>success = True, result = Some r, provider_used = Some primary_name,
            fallback_level = 0, error = None\<rparr>, s', [primary_name])
      | (Inl e, s') \<Rightarrow>
          (case (case fallback_funcs of
                   None \<Rightarrow> (None, s', [])
                 | Some fs \<Rightarrow> if fs = [] then (None, s', []) else try_fallbacks fs 1 s') of
             (Some res, s'', called) \<Rightarrow> (res, s'', primary_name # called)
           | (None, s'', called) \<Rightarrow>
               (\<lparr>success = False, result = None, provider_used = None,
                 fallback_level = - 1, error = Some e\<rparr>, s'', primary_name # called)))"

text \<open>
  \<^verbatim>\<open>stt_text_only_mode(*args, **kwargs)\<close>, which ignores its arguments, and the chain
  \<^verbatim>\<open>STT_FALLBACK_CHAIN\<close>.
\<close>

definition stt_text_only_mode :: "'args \<Rightarrow> 's \<Rightarrow> (exc + string) \<times> 's" where
  "stt_text_only_mode args s =
     (Inr ''[Speech recognition unavailable - please type your message]'', s)"

definition STT_FALLBACK_CHAIN ::
  "(('args \<Rightarrow> 's \<Rightarrow> (exc + string) \<times> 's) \<times> string) list" where
  "STT_FALLBACK_CHAIN = [(stt_text_only_mode, ''Text-only mode'')]"

text \<open>
  Two readings of a candidate list from a state: every candidate raises when its turn
  comes, and the state the world is in after each of them was called once, in order.
\<close>

fun all_raise :: "(('s \<Rightarrow> (exc + 'a) \<times> 's) \<times> string) list \<Rightarrow> 's \<Rightarrow> bool" where
  "all_raise [] s = True"
| "all_raise ((f, name) # rest) s =
     (case f s of (Inl e, s') \<Rightarrow> all_raise rest s' | (Inr r, s') \<Rightarrow> False)"

fun state_after :: "(('s \<Rightarrow> (exc + 'a) \<times> 's) \<times> string) list \<Rightarrow> 's \<Rightarrow> 's" where
  "state_after [] s = s"
| "state_after ((f, name) # rest) s = state_after rest (snd (f s))"

section \<open>stt.py\<close>

text \<open>
  The world of \<^verbatim>\<open>transcribe\<close>: the files under \<^verbatim>\<open>/tmp\<close> (path to content) and the state
  \<open>'p\<close> of everything the providers talk to. Providers act on the second part only.
\<close>

record 'p world =
  files :: "string \<rightharpoonup> string"
  provider :: 'p

definition on_provider ::
  "('p \<Rightarrow> (exc + 'a) \<times> 'p) \<Rightarrow> 'p world \<Rightarrow> (exc + 'a) \<times> 'p world" where
  "on_provider f w = (case f (provider w) of (r, p') \<Rightarrow> (r, w\<lparr>provider := p'\<rparr>))"

definition file_not_found :: "string \<Rightarrow> exc" where
  "file_not_found path =
     \<lparr>exc_class = OtherException ''FileNotFoundError'',
      exc_str = ''[Errno 2] No such file or directory: '' @ [CHR 0x27] @ path @ [CHR 0x27]\<rparr>"

text \<open>\<^verbatim>\<open>os.remove(path)\<close> raises when there is no such file.\<close>

definition os_remove :: "string \<Rightarrow> (string \<rightharpoonup> string) \<Rightarrow> exc + (string \<rightharpoonup> string)" where
  "os_remove path fs =
     (case fs path of
        None \<Rightarrow> Inl (file_not_found path)
      | Some content \<Rightarrow> Inr (fs(path := None)))"

text \<open>
  \<^verbatim>\<open>_transcribe_internal(converted_filepath)\<close>: open the converted file, send its content to
  the transcription API \<open>whisper\<close>.
\<close>

definition transcribe_internal ::
  "(string \<Rightarrow> 'p \<Rightarrow> (exc + string) \<times> 'p) \<Rightarrow> string \<Rightarrow> 'p world
     \<Rightarrow> (exc + string) \<times> 'p world" where
  "transcribe_internal whisper converted_filepath w =
     (case files w converted_filepath of
        None \<Rightarrow> (Inl (file_not_found converted_filepath), w)
      | Some audio_file \<Rightarrow> on_provider (whisper audio_file) w)"

text \<open>
  What running the external ffmpeg program on an input does: it writes the converted file,
  or the call raises, with or without an output file left behind.
\<close>

datatype ffmpeg_run = Converted string | ConversionError exc "string option"

text \<open>
  The \<^verbatim>\<open>finally\<close> block of \<^verbatim>\<open>transcribe\<close>. \<open>converted_filepath\<close> is \<open>Some\<close> when the
  variable is among \<^verbatim>\<open>locals()\<close>; \<open>pending\<close> is the return value or the exception on its
  way out of the \<^verbatim>\<open>try\<close> block, which an exception raised here replaces.
\<close>

definition finally_cleanup ::
  "string \<Rightarrow> string option \<Rightarrow> exc + 'a \<Rightarrow> 'p world \<Rightarrow> (exc + 'a) \<times> 'p world" where
  "finally_cleanup temp_filepath converted_filepath pending w =
     (case os_remove temp_filepath (files w) of
        Inl e \<Rightarrow> (Inl e, w)
      | Inr fs \<Rightarrow>
          (case converted_filepath of
             None \<Rightarrow> (pending, w\<lparr>files := fs\<rparr>)
           | Some path \<Rightarrow>
               (case os_remove path fs of
                  Inl e \<Rightarrow> (Inl e, w\<lparr>files := fs\<rparr>)
                | Inr fs' \<Rightarrow> (pending, w\<lparr>files := fs'\<rparr>))))"

text \<open>
  \<^verbatim>\<open>transcribe(audio)\<close>. \<open>audio_content\<close> is what \<^verbatim>\<open>audio.read()\<close> returns, \<open>uuid1\<close> and
  \<open>uuid2\<close> are the two \<^verbatim>\<open>uuid.uuid4()\<close> values, \<open>open_error\<close> is the exception of writing
  the upload copy, if that fails. The module constant \<^verbatim>\<open>STT_FALLBACK_CHAIN\<close> is the
  argument \<open>fallback_chain\<close>; each candidate is called with the converted file's path.
  The result is \<open>None\<close> where Python returns \<^verbatim>\<open>None\<close>.
\<close>

definition transcribe ::
  "string \<Rightarrow> string \<Rightarrow> string \<Rightarrow> exc option \<Rightarrow> (string \<Rightarrow> ffmpeg_run)
     \<Rightarrow> (string \<Rightarrow> 'p \<Rightarrow> (exc + string) \<times> 'p)
     \<Rightarrow> ((string \<Rightarrow> 'p \<Rightarrow> (exc + string) \<times> 'p) \<times> string) list \<Rightarrow> (nat \<Rightarrow> real)
     \<Rightarrow> 'p world \<Rightarrow> (exc + string option) \<times> 'p world" where
  "transcribe audio_content uuid1 uuid2 open_error ffmpeg whisper fallback_chain rnd w =
     (let temp_filepath = ''/tmp/'' @ uuid1 @ ''.wav'' in
      case open_error of
        Some e \<Rightarrow> finally_cleanup temp_filepath None (Inl e) w
      | None \<Rightarrow>
          let w1 = w\<lparr>files := (files w)(temp_filepath \<mapsto> audio_content)\<rparr>;
              converted_filepath = ''/tmp/converted-'' @ uuid2 @ ''.wav''
          in
          (case ffmpeg audio_content of
             ConversionError e out \<Rightarrow>
               finally_cleanup temp_filepath (Some converted_filepath) (Inl e)
                 (case out of
                    None \<Rightarrow> w1
                  | Some partial \<Rightarrow> w1\<lparr>files := (files w1)(converted_filepath \<mapsto> partial)\<rparr>)
           | Converted converted \<Rightarrow>
               let w2 = w1\<lparr>files := (files w1)(converted_filepath \<mapsto> converted)\<rparr>;
                   transcribe_with_retry =
                     (\<lambda>s. case retry_async (transcribe_internal whisper converted_filepath)
                                 (Some RETRY_CONFIG_STT) rnd s of
                            (r, s', tr) \<Rightarrow> (r, s'))
               in
               (case execute_fallback_chain STT transcribe_with_retry ''OpenAI Whisper''
                       (Some (map (\<lambda>(f, name). (on_provider (f converted_filepath), name))
                          fallback_chain)) w2 of
                  (fallback_result, w3, called) \<Rightarrow>
                    finally_cleanup temp_filepath (Some converted_filepath)
                      (Inr (if \<not> success fallback_result
                            then Some ''[Speech recognition unavailable]''
                            else result fallback_result)) w3)))"

section \<open>routes/tts.py: the request model\<close>





section \<open>routes/inference.py\<close>









text \<open>\<^verbatim>\<open>HTTPException(status_code, detail)\<close>.\<close>

record HTTPException =
  status_code :: nat
  detail :: string

text \<open>
  A conversation turn is \<^verbatim>\<open>{"role": ..., "content": ...}\<close>; the client may send any other
  JSON value in its place. The \<^verbatim>\<open>conversation\<close> header is absent or empty, or fails to
  decode (base64, UTF-8 or JSON), or decodes to something that is not a list, or to a list.
\<close>

datatype message = Turn string string | JsonValue string















section \<open>Definitions for the statements\<close>

text \<open>\<open>message_has e tok\<close>: the test \<^verbatim>\<open>tok in str(e).lower()\<close> of \<^verbatim>\<open>should_retry\<close>.\<close>

definition message_has :: "exc \<Rightarrow> string \<Rightarrow> bool" where
  "message_has e tok = str_in tok (lower (exc_str e))"

text \<open>
  The classification rules as the specification words them: the tokens it lists as
  retryable and as non-retryable, and the bare \<open>500\<close>. An exception is unclassified when
  it is no network or timeout error and its message has none of these tokens.
\<close>

definition spec_retryable_tokens :: "string list" where
  "spec_retryable_tokens =
     [''429'', ''502'', ''503'', ''504'', ''rate limit'', ''timeout'', ''connection'',
      ''network'']"

definition spec_non_retryable_tokens :: "string list" where
  "spec_non_retryable_tokens =
     [''401'', ''403'', ''404'', ''invalid api key'', ''authentication'', ''authorization'']"

definition spec_unclassified :: "exc \<Rightarrow> bool" where
  "spec_unclassified e \<longleftrightarrow>
     exc_class e \<noteq> ConnectionError \<and> exc_class e \<noteq> TimeoutError
     \<and> exc_class e \<noteq> AsyncioTimeoutError
     \<and> \<not> list_ex (message_has e)
           (spec_retryable_tokens @ spec_non_retryable_tokens @ [''500''])"

text \<open>The candidates of a fallback list that may be absent.\<close>

definition candidates ::
  "(('s \<Rightarrow> (exc + 'a) \<times> 's) \<times> string) list option
     \<Rightarrow> (('s \<Rightarrow> (exc + 'a) \<times> 's) \<times> string) list" where
  "candidates fallback_funcs = (case fallback_funcs of None \<Rightarrow> [] | Some fs \<Rightarrow> fs)"

text \<open>
  Two test operations on a world that counts the calls made: one raises a
  \<^verbatim>\<open>RuntimeError\<close> with the given text, one returns the given value.
\<close>

definition raising :: "string \<Rightarrow> nat \<Rightarrow> (exc + string) \<times> nat" where
  "raising msg n = (Inl \<lparr>exc_class = OtherException ''RuntimeError'', exc_str = msg\<rparr>, Suc n)"

definition returning :: "string \<Rightarrow> nat \<Rightarrow> (exc + string) \<times> nat" where
  "returning v n = (Inr v, Suc n)"




section \<open>Properties of retry\_utils.py\<close>

subsection \<open>The retry predicate\<close>

text \<open>
  Claim C2, as amended. \<^verbatim>\<open>should_retry\<close> is true exactly when the exception is a
  connection or timeout error, or its lower-cased message contains one of the retryable
  tokens, among them \<open>too many requests\<close>, or it contains none of the non-retryable tokens
  and contains \<open>500\<close> or \<open>5xx\<close>. The retryable tokens are tested first.
\<close>

theorem should_retry_classification:
  "should_retry e \<longleftrightarrow>
     exc_class e = ConnectionError \<or> exc_class e = TimeoutError
     \<or> exc_class e = AsyncioTimeoutError
     \<or> message_has e ''timeout'' \<or> message_has e ''connection'' \<or> message_has e ''network''
     \<or> message_has e ''503'' \<or> message_has e ''502'' \<or> message_has e ''504''
     \<or> message_has e ''429'' \<or> message_has e ''rate limit''
     \<or> message_has e ''too many requests''
     \<or> (message_has e ''500'' \<or> message_has e ''5xx'')
        \<and> \<not> message_has e ''401'' \<and> \<not> message_has e ''403'' \<and> \<not> message_has e ''404''
        \<and> \<not> message_has e ''invalid api key'' \<and> \<not> message_has e ''authentication''
        \<and> \<not> message_has e ''authorization''"
  unfolding should_retry_def message_has_def retryable_conditions_def
    non_retryable_conditions_def Let_def list_ex_iff
  by auto

text \<open>
  Claim C2 as stated fails: a message \<open>Too Many Requests\<close> has none of the tokens the
  specification lists, so the specification calls it non-retryable, and the code retries.
\<close>

theorem should_retry_unclassified_counterexample:
  "spec_unclassified \<lparr>exc_class = OtherException ''HTTPError'', exc_str = ''Too Many Requests''\<rparr>
   \<and> should_retry \<lparr>exc_class = OtherException ''HTTPError'', exc_str = ''Too Many Requests''\<rparr>"
  by (simp add: spec_unclassified_def spec_retryable_tokens_def spec_non_retryable_tokens_def
      message_has_def should_retry_def retryable_conditions_def lower_def lower_char_def)

lemma retry_loop_starts_with_call:
  "\<exists>tr. snd (snd (retry_loop config rnd func (a # rest) lst s)) = Invoked # tr"
  by (auto split: prod.splits sum.splits)

text \<open>
  Claim C10. When the message contains a retryable token and a non-retryable one,
  \<^verbatim>\<open>should_retry\<close> is true; and \<^verbatim>\<open>retry_async\<close>, when the first call raises such an
  exception and at least two attempts are allowed, sleeps the first backoff delay and
  calls the operation again.
\<close>

theorem retryable_token_wins:
  assumes "r \<in> set retryable_conditions" and "n \<in> set non_retryable_conditions"
    and "message_has e r" and "message_has e n"
    and "func s = (Inl e, s')" and "2 \<le> max_attempts config"
  shows "should_retry e \<and>
     (\<exists>tr. snd (snd (retry_async func (Some config) rnd s)) =
        Invoked # Slept (calculate_delay config (rnd 0) 0) # Invoked # tr)"
proof -
  have sr: "should_retry e"
    using assms(1,3) by (auto simp: should_retry_def list_ex_iff Let_def message_has_def)
  have "0 < nat (max_attempts config)" and "1 < nat (max_attempts config)"
    using assms(6) by auto
  then have list: "[0..<nat (max_attempts config)] = 0 # 1 # [2..<nat (max_attempts config)]"
    by (simp add: upt_conv_Cons numeral_2_eq_2)
  obtain tr where tr: "snd (snd (retry_loop config rnd func
      (1 # [2..<nat (max_attempts config)]) (Some e) s')) = Invoked # tr"
    using retry_loop_starts_with_call
      [of config rnd func 1 "[2..<nat (max_attempts config)]" "Some e" s'] by auto
  have notlast: "int 0 \<noteq> max_attempts config - 1" using assms(6) by simp
  have first: "retry_loop config rnd func (0 # 1 # [2..<nat (max_attempts config)]) None s =
      (case retry_loop config rnd func (1 # [2..<nat (max_attempts config)]) (Some e) s' of
         (r, s'', tr) \<Rightarrow> (r, s'', Invoked # Slept (calculate_delay config (rnd 0) 0) # tr))"
    using assms(5) sr notlast
    by (simp del: retry_loop.simps(2) add: retry_loop.simps(2) [of _ _ _ 0])
  have run: "retry_async func (Some config) rnd s =
      retry_loop config rnd func (0 # 1 # [2..<nat (max_attempts config)]) None s"
    by (simp add: retry_async_def list)
  obtain r2 s2 t2 where rl: "retry_loop config rnd func
      (1 # [2..<nat (max_attempts config)]) (Some e) s' = (r2, s2, t2)"
    using prod_cases3 by blast
  have t2: "t2 = Invoked # tr" using tr unfolding rl by simp
  have "snd (snd (retry_async func (Some config) rnd s)) =
        Invoked # Slept (calculate_delay config (rnd 0) 0) # Invoked # tr"
    unfolding run first rl t2 by simp
  with sr show ?thesis by blast
qed

theorem retryable_token_wins_witness:
  "should_retry \<lparr>exc_class = OtherException ''RuntimeError'',
       exc_str = ''Connection refused: 401''\<rparr> \<and>
   (\<exists>tr. snd (snd (retry_async (raising ''Connection refused: 401'')
        (Some RETRY_CONFIG_STT) (\<lambda>a. 0) 0)) = Invoked # Slept 1 # Invoked # tr)"
proof -
  have r: "''connection'' \<in> set retryable_conditions"
    by (simp add: retryable_conditions_def)
  have n: "''401'' \<in> set non_retryable_conditions"
    by (simp add: non_retryable_conditions_def)
  let ?e = "\<lparr>exc_class = OtherException ''RuntimeError'',
             exc_str = ''Connection refused: 401''\<rparr>"
  have hr: "message_has ?e ''connection''"
    by (simp add: message_has_def lower_def lower_char_def)
  have hn: "message_has ?e ''401''"
    by (simp add: message_has_def lower_def lower_char_def)
  have f: "raising ''Connection refused: 401'' 0 = (Inl ?e, Suc 0)"
    by (simp add: raising_def)
  have m: "2 \<le> max_attempts RETRY_CONFIG_STT" by (simp add: RETRY_CONFIG_STT_def)
  have d: "calculate_delay RETRY_CONFIG_STT 0 0 = 1"
    by (simp add: calculate_delay_def RETRY_CONFIG_STT_def)
  from retryable_token_wins [of "''connection''" "''401''" ?e
      "raising ''Connection refused: 401''" 0 "Suc 0" RETRY_CONFIG_STT "\<lambda>a. 0"]
    r n hr hn f m
  show ?thesis by (simp add: d)
qed

subsection \<open>The backoff delay\<close>

text \<open>
  Claim C7, as amended. With jitter off the delay is
  \<open>min max_delay (base_delay * exponential_base ^ a)\<close>, whatever the random number, and so
  at most \<open>max_delay\<close>; it does not decrease from one attempt to the next when
  \<open>base_delay\<close> is not negative and \<open>exponential_base\<close> is at least 1.
\<close>

theorem calculate_delay_no_jitter:
  assumes "\<not> jitter config"
  shows "calculate_delay config rnd a =
           min (max_delay config) (base_delay config * exponential_base config ^ a)
     \<and> calculate_delay config rnd a \<le> max_delay config
     \<and> (0 \<le> base_delay config \<and> 1 \<le> exponential_base config
          \<longrightarrow> calculate_delay config rnd a \<le> calculate_delay config rnd' (Suc a))"
proof -
  have eq: "calculate_delay config r k =
      min (max_delay config) (base_delay config * exponential_base config ^ k)" for r k
    using assms by (simp add: calculate_delay_def Let_def min.commute)
  have mono: "base_delay config * exponential_base config ^ a
      \<le> base_delay config * exponential_base config ^ Suc a"
    if "0 \<le> base_delay config" "1 \<le> exponential_base config"
  proof -
    have "exponential_base config ^ a \<le> exponential_base config ^ Suc a"
      using that(2) by (intro power_increasing) auto
    then show ?thesis using that(1) by (rule mult_left_mono)
  qed
  show ?thesis unfolding eq using mono by (auto simp: min_le_iff_disj)
qed

theorem calculate_delay_no_jitter_witness:
  "\<not> jitter \<lparr>max_attempts = 3, base_delay = 2, max_delay = 10, exponential_base = 2,
       jitter = False\<rparr>
   \<and> calculate_delay \<lparr>max_attempts = 3, base_delay = 2, max_delay = 10,
       exponential_base = 2, jitter = False\<rparr> (1/2) 2 = 8
   \<and> calculate_delay \<lparr>max_attempts = 3, base_delay = 2, max_delay = 10,
       exponential_base = 2, jitter = False\<rparr> (1/2) 2
      \<le> calculate_delay \<lparr>max_attempts = 3, base_delay = 2, max_delay = 10,
       exponential_base = 2, jitter = False\<rparr> (1/3) 3"
  using calculate_delay_no_jitter [of "\<lparr>max_attempts = 3, base_delay = 2, max_delay = 10,
       exponential_base = 2, jitter = False\<rparr>" "1/2" 2 "1/3"]
  by simp

text \<open>
  Claim C7 as stated fails: a configuration with \<open>exponential_base = 1/2\<close> keeps
  \<open>base_delay \<le> max_delay\<close>, and its delay goes down from attempt 0 to attempt 1.
\<close>

theorem backoff_monotonicity_counterexample:
  "base_delay \<lparr>max_attempts = 3, base_delay = 1, max_delay = 10, exponential_base = 1/2,
       jitter = False\<rparr>
     \<le> max_delay \<lparr>max_attempts = 3, base_delay = 1, max_delay = 10, exponential_base = 1/2,
       jitter = False\<rparr>
   \<and> \<not> jitter \<lparr>max_attempts = 3, base_delay = 1, max_delay = 10, exponential_base = 1/2,
       jitter = False\<rparr>
   \<and> calculate_delay \<lparr>max_attempts = 3, base_delay = 1, max_delay = 10,
       exponential_base = 1/2, jitter = False\<rparr> 0 1
     < calculate_delay \<lparr>max_attempts = 3, base_delay = 1, max_delay = 10,
       exponential_base = 1/2, jitter = False\<rparr> 0 0"
  by (simp add: calculate_delay_def)

subsection \<open>The retry loop\<close>




section \<open>Properties of fallback.py\<close>

lemma try_fallbacks_all_raise:
  "all_raise fs s \<Longrightarrow> try_fallbacks fs level s = (None, state_after fs s, map snd fs)"
proof (induction fs arbitrary: level s)
  case Nil
  then show ?case by simp
next
  case (Cons c fs)
  obtain f name where c: "c = (f, name)" by (cases c)
  from Cons.prems obtain e s' where f: "f s = (Inl e, s')" and rest: "all_raise fs s'"
    by (auto simp: c split: prod.splits sum.splits)
  show ?case using f Cons.IH [OF rest, of "level + 1"] by (simp add: c)
qed

lemma try_fallbacks_first_success:
  "all_raise pre s \<Longrightarrow> f (state_after pre s) = (Inr r, s1) \<Longrightarrow>
   try_fallbacks (pre @ (f, name) # post) level s =
     (Some \<lparr>success = True, result = Some r, provider_used = Some name,
            fallback_level = level + int (length pre), error = None\<rparr>,
      s1, map snd pre @ [name])"
proof (induction pre arbitrary: level s)
  case Nil
  then show ?case by simp
next
  case (Cons c pre)
  obtain g gname where c: "c = (g, gname)" by (cases c)
  from Cons.prems(1) obtain e s' where g: "g s = (Inl e, s')" and rest: "all_raise pre s'"
    by (auto simp: c split: prod.splits sum.splits)
  have "f (state_after pre s') = (Inr r, s1)" using Cons.prems(2) g by (simp add: c)
  from Cons.IH [OF rest this, of "level + 1"] show ?case using g by (simp add: c)
qed

lemma fallback_chain_exhausted:
  assumes "primary_func s = (Inl e, s0)"
    and "all_raise (candidates fallback_funcs) s0"
  shows "execute_fallback_chain service_type primary_func primary_name fallback_funcs s =
     (\<lparr>success = False, result = None, provider_used = None, fallback_level = - 1,
       error = Some e\<rparr>,
      state_after (candidates fallback_funcs) s0,
      primary_name # map snd (candidates fallback_funcs))"
proof (cases fallback_funcs)
  case None
  then show ?thesis using assms(1) by (simp add: execute_fallback_chain_def candidates_def)
next
  case (Some fs)
  then have "all_raise fs s0" using assms(2) by (simp add: candidates_def)
  from try_fallbacks_all_raise [OF this, of 1] show ?thesis
    using assms(1) Some by (auto simp: execute_fallback_chain_def candidates_def)
qed

text \<open>
  Claim C1. When the primary raises \<open>e\<close> and every fallback candidate raises in its turn,
  or there is no candidate, the result has \<open>success = False\<close>, \<open>fallback_level = -1\<close>, no
  provider, and the error \<open>e\<close> of the primary; every candidate was called once, in order.
\<close>

theorem fallback_exhaustion:
  assumes "primary_func s = (Inl e, s0)"
    and "all_raise (candidates fallback_funcs) s0"
  shows "execute_fallback_chain service_type primary_func primary_name fallback_funcs s =
     (\<lparr>success = False, result = None, provider_used = None, fallback_level = - 1,
       error = Some e\<rparr>,
      state_after (candidates fallback_funcs) s0,
      primary_name # map snd (candidates fallback_funcs))"
  using assms by (rule fallback_chain_exhausted)

theorem fallback_exhaustion_witness:
  "execute_fallback_chain TTS (raising ''primary down'') ''OpenAI TTS''
      (Some [(raising ''edge down'', ''Edge TTS''), (raising ''gtts down'', ''gTTS'')]) 0 =
     (\<lparr>success = False, result = None, provider_used = None, fallback_level = - 1,
       error = Some \<lparr>exc_class = OtherException ''RuntimeError'', exc_str = ''primary down''\<rparr>\<rparr>,
      3, [''OpenAI TTS'', ''Edge TTS'', ''gTTS''])"
  using fallback_exhaustion [of "raising ''primary down''" 0 _ 1
      "Some [(raising ''edge down'', ''Edge TTS''), (raising ''gtts down'', ''gTTS'')]" TTS
      "''OpenAI TTS''"]
  by (simp add: raising_def candidates_def)

text \<open>
  Claim C4. When the primary raises, the candidates before position k raise in their
  turn and the candidate at position k returns \<open>r\<close>, the result has \<open>success = True\<close>, the
  value \<open>r\<close>, \<open>fallback_level = k\<close> and that candidate's name; the providers were called in
  list order up to that candidate, and no later one was called.
\<close>

theorem fallback_ordering:
  assumes "primary_func s = (Inl e, s0)"
    and "all_raise pre s0"
    and "f (state_after pre s0) = (Inr r, s1)"
  shows "execute_fallback_chain service_type primary_func primary_name
           (Some (pre @ (f, name) # post)) s =
     (\<lparr>success = True, result = Some r, provider_used = Some name,
       fallback_level = int (length pre) + 1, error = None\<rparr>,
      s1, primary_name # map snd pre @ [name])"
proof -
  have "try_fallbacks (pre @ (f, name) # post) 1 s0 =
     (Some \<lparr>success = True, result = Some r, provider_used = Some name,
            fallback_level = 1 + int (length pre), error = None\<rparr>,
      s1, map snd pre @ [name])"
    using assms(2,3) by (rule try_fallbacks_first_success)
  then show ?thesis using assms(1) by (simp add: execute_fallback_chain_def)
qed

theorem fallback_ordering_witness:
  "execute_fallback_chain TTS (raising ''primary down'') ''OpenAI TTS''
      (Some [(raising ''edge down'', ''Edge TTS''), (returning ''audio'', ''gTTS'')]) 0 =
     (\<lparr>success = True, result = Some ''audio'', provider_used = Some ''gTTS'',
       fallback_level = 2, error = None\<rparr>, 3, [''OpenAI TTS'', ''Edge TTS'', ''gTTS''])"
  using fallback_ordering [of "raising ''primary down''" 0 _ 1
      "[(raising ''edge down'', ''Edge TTS'')]" "returning ''audio''" "''audio''" 3 TTS
      "''OpenAI TTS''" "''gTTS''" "[]"]
  by (simp add: raising_def returning_def)

section \<open>Properties of routes/inference.py\<close>















section \<open>Properties of stt.py\<close>


















text \<open>
  Claim C8, on the path where the conversion fails. When ffmpeg raises without having
  written its output file, the \<^verbatim>\<open>finally\<close> block removes the upload copy and then calls
  \<^verbatim>\<open>os.remove\<close> on the converted path, which does not exist: \<^verbatim>\<open>transcribe\<close> raises that
  \<^verbatim>\<open>FileNotFoundError\<close>, not the error of ffmpeg.
\<close>

theorem cleanup_replaces_ffmpeg_error:
  assumes "ffmpeg audio_content = ConversionError e None"
    and "uuid1 \<noteq> ''converted-'' @ uuid2"
    and "files w (''/tmp/converted-'' @ uuid2 @ ''.wav'') = None"
  shows "transcribe audio_content uuid1 uuid2 None ffmpeg whisper fallback_chain rnd w =
     (Inl (file_not_found (''/tmp/converted-'' @ uuid2 @ ''.wav'')),
      w\<lparr>files := (files w)(''/tmp/'' @ uuid1 @ ''.wav'' := None)\<rparr>)"
  using assms
  by (simp add: transcribe_def Let_def finally_cleanup_def os_remove_def)

theorem cleanup_replaces_ffmpeg_error_witness:
  "transcribe ''not audio'' ''u1'' ''u2'' None
      (\<lambda>a. ConversionError \<lparr>exc_class = OtherException ''ffmpeg.Error'',
          exc_str = ''ffmpeg error (see stderr output for detail)''\<rparr> None)
      (\<lambda>audio. returning ''hello'') STT_FALLBACK_CHAIN (\<lambda>a. 0)
      \<lparr>files = Map.empty, provider = 0\<rparr> =
     (Inl \<lparr>exc_class = OtherException ''FileNotFoundError'',
           exc_str = ''[Errno 2] No such file or directory: '' @ [CHR 0x27]
             @ ''/tmp/converted-u2.wav'' @ [CHR 0x27]\<rparr>,
      \<lparr>files = Map.empty, provider = 0\<rparr>)"
  using cleanup_replaces_ffmpeg_error [where audio_content = "''not audio''"
      and ?uuid1.0 = "''u1''" and ?uuid2.0 = "''u2''"
      and e = "\<lparr>exc_class = OtherException ''ffmpeg.Error'',
          exc_str = ''ffmpeg error (see stderr output for detail)''\<rparr>"
      and ffmpeg = "\<lambda>a. ConversionError \<lparr>exc_class = OtherException ''ffmpeg.Error'',
          exc_str = ''ffmpeg error (see stderr output for detail)''\<rparr> None"
      and whisper = "\<lambda>audio. returning ''hello''" and fallback_chain = STT_FALLBACK_CHAIN
      and rnd = "\<lambda>a. 0" and w = "\<lparr>files = Map.empty, provider = 0\<rparr>"]
  by (simp add: file_not_found_def)

end
